theory Spec2Isabelle
  imports Main
begin

section \<open>Python values\<close>

text \<open>
  The program \<^verbatim>\<open>ai_doc.py\<close> is a Streamlit script: a chat front-end for a
  generative-language API and a hospital search over the Overpass API. Its own code is
  glue around external calls, so the model takes the outcome of every external call as a
  parameter (the record \<open>world\<close> below) and logs every external call and every
  displayed error as an \<open>event\<close>.

  A value returned by \<^verbatim>\<open>response.json()\<close> is any JSON value. Python floats are kept
  abstract (the type variable \<open>'f\<close>): the program only passes them on, formats them
  and tests them for truth. A \<open>JDict\<close> holds the items of a dict; a key is looked up
  with \<open>map_of\<close>.
\<close>

datatype 'f json =
    JNull
  | JBool bool
  | JInt int
  | JFloat 'f
  | JStr string
  | JList "'f json list"
  | JDict "(string \<times> 'f json) list"

text \<open>
  The exceptions the hospital search can meet. \<open>KeyError k\<close>, \<open>TypeError\<close> and
  \<open>AttributeError\<close> are raised by the interpreter; \<open>Raised m\<close> is any other
  \<^verbatim>\<open>Exception\<close> \<open>e\<close>, raised by a library call, with \<^verbatim>\<open>str(e)\<close> equal to \<open>m\<close>.
  A computation that may raise has a result of type \<open>py_exception + 'a\<close>.
\<close>

datatype py_exception = KeyError string | TypeError | AttributeError | Raised string

definition and_then :: "'e + 'a \<Rightarrow> ('a \<Rightarrow> 'e + 'b) \<Rightarrow> 'e + 'b" where
  "and_then m f = (case m of Inl e \<Rightarrow> Inl e | Inr x \<Rightarrow> f x)"

fun startswith :: "string \<Rightarrow> string \<Rightarrow> bool" where
  "startswith s [] = True"
| "startswith [] (p # ps) = False"
| "startswith (c # cs) (p # ps) = (c = p \<and> startswith cs ps)"

text \<open>\<^verbatim>\<open>sub in s\<close> on two strings: \<open>sub\<close> occurs in \<open>s\<close>.\<close>

fun str_in :: "string \<Rightarrow> string \<Rightarrow> bool" where
  "str_in sub [] = (sub = [])"
| "str_in sub (c # cs) = (startswith (c # cs) sub \<or> str_in sub cs)"

text \<open>
  \<^verbatim>\<open>k in v\<close> for a string \<open>k\<close>: key membership on a dict, item membership on a
  list, substring test on a string, \<^verbatim>\<open>TypeError\<close> on anything else.
\<close>

fun py_in :: "string \<Rightarrow> 'f json \<Rightarrow> py_exception + bool" where
  "py_in k (JDict items) = Inr (map_of items k \<noteq> None)"
| "py_in k (JList xs) = Inr (JStr k \<in> set xs)"
| "py_in k (JStr s) = Inr (str_in k s)"
| "py_in k _ = Inl TypeError"

text \<open>\<^verbatim>\<open>v[k]\<close> for a string \<open>k\<close>: only a dict can be indexed by a string.\<close>

fun py_subscript :: "'f json \<Rightarrow> string \<Rightarrow> py_exception + 'f json" where
  "py_subscript (JDict items) k =
     (case map_of items k of None \<Rightarrow> Inl (KeyError k) | Some v \<Rightarrow> Inr v)"
| "py_subscript _ k = Inl TypeError"

text \<open>\<^verbatim>\<open>v.get(k, default)\<close>: only a dict has the method.\<close>

fun dict_get :: "'f json \<Rightarrow> string \<Rightarrow> 'f json \<Rightarrow> py_exception + 'f json" where
  "dict_get (JDict items) k dflt =
     Inr (case map_of items k of None \<Rightarrow> dflt | Some v \<Rightarrow> v)"
| "dict_get _ k dflt = Inl AttributeError"

text \<open>
  \<^verbatim>\<open>for x in v\<close>: the items of a list, the keys of a dict, the characters of a
  string; anything else is not iterable.
\<close>

fun py_iter :: "'f json \<Rightarrow> py_exception + 'f json list" where
  "py_iter (JList xs) = Inr xs"
| "py_iter (JDict items) = Inr (map (\<lambda>kv. JStr (fst kv)) items)"
| "py_iter (JStr s) = Inr (map (\<lambda>c. JStr [c]) s)"
| "py_iter _ = Inl TypeError"

text \<open>\<^verbatim>\<open>sep.join(xs)\<close>.\<close>

fun join :: "string \<Rightarrow> string list \<Rightarrow> string" where
  "join sep [] = []"
| "join sep [x] = x"
| "join sep (x # y # ys) = x @ sep @ join sep (y # ys)"

text \<open>\<^verbatim>\<open>str(n)\<close> for an int: decimal digits, with a minus sign below zero.\<close>

definition digit :: "nat \<Rightarrow> char" where
  "digit n = ''0123456789'' ! n"

function str_nat :: "nat \<Rightarrow> string" where
  "str_nat n = (if n < 10 then [digit n] else str_nat (n div 10) @ [digit (n mod 10)])"
  by pat_completeness auto
termination
  by (relation "measure id") auto

declare str_nat.simps [simp del]

definition str_int :: "int \<Rightarrow> string" where
  "str_int i = (if i < 0 then CHR ''-'' # str_nat (nat (- i)) else str_nat (nat i))"

section \<open>The outside world and what the script does to it\<close>

text \<open>
  A hospital as \<^verbatim>\<open>get_nearby_hospitals\<close> builds it: a dict with exactly these five
  keys. The values are whatever the response held (or the default string).
\<close>

record 'f hospital =
  name :: "'f json"
  phone :: "'f json"
  lat :: "'f json"
  lon :: "'f json"
  address :: "'f json"

text \<open>
  The outcome of each external call, for one run of the script. On the chat side every
  exception comes from the \<^verbatim>\<open>google.generativeai\<close> library and only its message is
  used: \<open>Inl m\<close> (or \<open>Some m\<close> for \<open>configure\<close>) is an \<^verbatim>\<open>Exception\<close> \<open>e\<close> with
  \<^verbatim>\<open>str(e) = m\<close>.
  \<^item> \<open>float_str\<close> is \<^verbatim>\<open>str(x)\<close> and \<open>float_bool\<close> is \<^verbatim>\<open>bool(x)\<close> on a float;
  \<^item> \<open>configure key\<close> is \<^verbatim>\<open>genai.configure(api_key=key)\<close>;
  \<^item> \<open>list_models\<close> is \<^verbatim>\<open>[model.name for model in genai.list_models()]\<close>;
  \<^item> \<open>GenerativeModel n\<close> is \<^verbatim>\<open>genai.GenerativeModel(n)\<close>; the model it returns maps
    a prompt \<open>p\<close> to \<^verbatim>\<open>model.generate_content(p).text\<close>;
  \<^item> \<open>post url data\<close> is \<^verbatim>\<open>requests.post(url, data=data)\<close>, and the response it
    returns is given by the outcome of its \<^verbatim>\<open>.json()\<close>;
  \<^item> \<open>draw_map latitude longitude hospitals\<close> is the drawing of the map (lines 172
    to 189: \<^verbatim>\<open>folium.Map\<close>, a \<^verbatim>\<open>folium.Marker\<close> for the user and for each hospital,
    \<^verbatim>\<open>folium_static\<close>); \<open>Some m\<close> when one of these calls raises, as
    \<^verbatim>\<open>folium.Marker\<close> does on a latitude or longitude that is not a number. No
    \<^verbatim>\<open>try\<close> statement is around them.
\<close>

type_synonym generative_model = "string \<Rightarrow> string + string"

record 'f world =
  float_str :: "'f \<Rightarrow> string"
  float_bool :: "'f \<Rightarrow> bool"
  configure :: "string \<Rightarrow> string option"
  list_models :: "string + string list"
  GenerativeModel :: "string \<Rightarrow> string + generative_model"
  post :: "string \<Rightarrow> string \<Rightarrow> py_exception + (py_exception + 'f json)"
  draw_map :: "'f \<Rightarrow> 'f \<Rightarrow> 'f hospital list \<Rightarrow> string option"

text \<open>
  What a run does that can be observed: the external calls and the messages shown.
  \<open>StErrorFetch e\<close> is \<^verbatim>\<open>st.error(f"Error fetching hospital data: {str(e)}")\<close>;
  \<open>ShowHospitals hs\<close> stands for the map and the list shown for \<open>hs\<close>. Pure layout
  (title, headers, the disclaimer, the conversation so far) is not recorded.
\<close>

datatype 'f event =
    GenaiConfigure string
  | GenaiListModels
  | NewGenerativeModel string
  | GenerateContent string
  | RequestsPost string string
  | StError string
  | StErrorFetch py_exception
  | StInfo string
  | StWrite string
  | ShowHospitals "'f hospital list"

section \<open>The assistant client\<close>

definition configure_genai :: "'f world \<Rightarrow> string \<Rightarrow> (string + unit) \<times> 'f event list" where
  "configure_genai w key =
     ((case configure w key of None \<Rightarrow> Inr () | Some m \<Rightarrow> Inl m), [GenaiConfigure key])"

definition prompt_text :: "string \<Rightarrow> string \<Rightarrow> string" where
  "prompt_text user_input conversation_history =
     ''\<newline>'' @
     ''    You are an AI medical assistant. You can provide general medical information and suggestions, \<newline>'' @
     ''    but you should always clarify that you're not a licensed medical professional and your advice \<newline>'' @
     ''    should not replace professional medical consultation.\<newline>'' @
     ''    \<newline>'' @
     ''    Based on the following symptoms, provide:\<newline>'' @
     ''    1. Possible causes\<newline>'' @
     ''    2. Recommended next steps\<newline>'' @
     ''    3. When they should seek immediate medical attention\<newline>'' @
     ''    \<newline>'' @
     ''    User's symptoms: '' @ user_input @ ''\<newline>'' @
     ''    \<newline>'' @
     ''    Previous conversation for context:\<newline>'' @
     ''    '' @ conversation_history @ ''\<newline>'' @
     ''    ''"

text \<open>
  Both exits of the \<^verbatim>\<open>try\<close> statement are \<^verbatim>\<open>return\<close>s, and nothing outside it can
  raise, so the result is a string.
\<close>

definition get_ai_response ::
  "string \<Rightarrow> string \<Rightarrow> generative_model \<Rightarrow> string \<times> 'f event list" where
  "get_ai_response user_input conversation_history model =
     (let full_prompt = prompt_text user_input conversation_history in
      case model full_prompt of
        Inr text \<Rightarrow> (text, [GenerateContent full_prompt])
      | Inl m \<Rightarrow> (''Error generating response: '' @ m, [GenerateContent full_prompt]))"

definition list_available_models :: "'f world \<Rightarrow> string list \<times> 'f event list" where
  "list_available_models w =
     (case list_models w of
        Inr model_names \<Rightarrow> (model_names, [GenaiListModels])
      | Inl m \<Rightarrow> ([''Error listing models: '' @ m], [GenaiListModels]))"

section \<open>The hospital finder\<close>

definition overpass_url :: string where
  "overpass_url = ''https://overpass-api.de/api/interpreter''"

definition overpass_query :: "'f world \<Rightarrow> 'f \<Rightarrow> 'f \<Rightarrow> int \<Rightarrow> string" where
  "overpass_query w lat0 lon0 rad =
     ''\<newline>'' @
     ''    [out:json];\<newline>'' @
     ''    node[\"amenity\"=\"hospital\"](around:'' @ str_int rad @ '','' @
        float_str w lat0 @ '','' @ float_str w lon0 @ '');\<newline>'' @
     ''    out body;\<newline>'' @
     ''    ''"

text \<open>
  The body of the loop for one element: \<open>Inr None\<close> when the element is skipped,
  \<open>Inr (Some h)\<close> when \<open>h\<close> is appended, \<open>Inl e\<close> when an expression raises. The
  entries of the dict display are evaluated in the order they are written.
\<close>

definition element_record :: "'f json \<Rightarrow> py_exception + 'f hospital option" where
  "element_record element =
     and_then (py_in ''tags'' element) (\<lambda>has_tags.
     if \<not> has_tags then Inr None else
     and_then (py_subscript element ''tags'') (\<lambda>tags.
     and_then (py_in ''name'' tags) (\<lambda>has_name.
     if \<not> has_name then Inr None else
     and_then (py_subscript element ''tags'') (\<lambda>tags1.
     and_then (dict_get tags1 ''name'' (JStr ''Unnamed Hospital'')) (\<lambda>v_name.
     and_then (py_subscript element ''tags'') (\<lambda>tags2.
     and_then (dict_get tags2 ''phone'' (JStr ''N/A'')) (\<lambda>v_phone.
     and_then (py_subscript element ''lat'') (\<lambda>v_lat.
     and_then (py_subscript element ''lon'') (\<lambda>v_lon.
     and_then (py_subscript element ''tags'') (\<lambda>tags3.
     and_then (dict_get tags3 ''addr:full'' (JStr ''Address not available'')) (\<lambda>v_address.
     Inr (Some \<lparr>name = v_name, phone = v_phone, lat = v_lat, lon = v_lon,
                address = v_address\<rparr>))))))))))))"

fun collect_hospitals ::
  "'f json list \<Rightarrow> 'f hospital list \<Rightarrow> py_exception + 'f hospital list" where
  "collect_hospitals [] hospitals = Inr hospitals"
| "collect_hospitals (element # rest) hospitals =
     (case element_record element of
        Inl e \<Rightarrow> Inl e
      | Inr None \<Rightarrow> collect_hospitals rest hospitals
      | Inr (Some h) \<Rightarrow> collect_hospitals rest (hospitals @ [h]))"

text \<open>The \<^verbatim>\<open>try\<close> block from \<^verbatim>\<open>data.get("elements", [])\<close> on.\<close>

definition parse_hospitals :: "'f json \<Rightarrow> py_exception + 'f hospital list" where
  "parse_hospitals data =
     and_then (dict_get data ''elements'' (JList [])) (\<lambda>elements.
     and_then (py_iter elements) (\<lambda>xs. collect_hospitals xs []))"

definition get_nearby_hospitals ::
  "'f world \<Rightarrow> 'f \<Rightarrow> 'f \<Rightarrow> int \<Rightarrow> 'f hospital list \<times> 'f event list" where
  "get_nearby_hospitals w lat0 lon0 rad =
     (let request = RequestsPost overpass_url (overpass_query w lat0 lon0 rad) in
      case and_then (post w overpass_url (overpass_query w lat0 lon0 rad)) (\<lambda>response.
           and_then response parse_hospitals) of
        Inr hospitals \<Rightarrow> (hospitals, [request])
      | Inl e \<Rightarrow> ([], [request, StErrorFetch e]))"

section \<open>The script\<close>

text \<open>
  The values of the widgets in one run of the script, in the order \<^verbatim>\<open>main\<close> reads
  them: the API key field (\<^verbatim>\<open>api_key\<close>), the model selector (\<^verbatim>\<open>model_name\<close>), the
  two number inputs (\<^verbatim>\<open>latitude\<close>, \<^verbatim>\<open>longitude\<close>), the slider (\<^verbatim>\<open>radius\<close>), the
  text area (\<^verbatim>\<open>user_input\<close>) and the three buttons. A button is \<open>True\<close> in the run
  that its click starts and in no other.

  The slider is declared at line 103 as
  \<^verbatim>\<open>st.slider("Search Radius (meters)", 1000, 10000, 5000)\<close>: an int slider with
  the minimum 1000, the maximum 10000 and the initial value 5000. What it returns is an
  int between its minimum and its maximum, so its values are the type
  \<open>search_radius\<close>, and \<open>Rep_search_radius\<close> is the int that \<^verbatim>\<open>main\<close> binds to
  \<^verbatim>\<open>radius\<close>.
\<close>

typedef search_radius = "{r :: int. 1000 \<le> r \<and> r \<le> 10000}"
  by (rule exI [of _ 5000]) simp

setup_lifting type_definition_search_radius

record 'f widgets =
  api_key_field :: string
  model_select :: string
  latitude_input :: 'f
  longitude_input :: 'f
  radius_slider :: search_radius
  list_models_button :: bool
  symptoms_area :: string
  send_button :: bool
  find_button :: bool

text \<open>
  The conversation is \<^verbatim>\<open>st.session_state.conversation\<close>, a list of (role, message)
  pairs; the session has no such key (\<open>None\<close>) until the first run creates it.
\<close>

type_synonym conversation = "(string \<times> string) list"

type_synonym session = "conversation option"

definition store :: "session \<Rightarrow> conversation" where
  "store s = (case s of None \<Rightarrow> [] | Some conv \<Rightarrow> conv)"

text \<open>
  How a run ends: it reaches the end of \<^verbatim>\<open>main\<close>, it leaves through the
  \<^verbatim>\<open>return\<close> of the key check, it is stopped by \<^verbatim>\<open>st.rerun()\<close>, or an exception
  (with this message) leaves \<^verbatim>\<open>main\<close>. \<^verbatim>\<open>st.rerun()\<close> stops the run by raising
  Streamlit's \<^verbatim>\<open>RerunException\<close>, which is not an \<^verbatim>\<open>Exception\<close> (it derives from
  \<^verbatim>\<open>BaseException\<close>), so the \<^verbatim>\<open>except Exception\<close> around it lets it pass.
\<close>

datatype outcome = Finished | Returned | Rerun | Uncaught string

text \<open>Line 146: the context handed to the model, without the turn just appended.\<close>

definition turn_line :: "string \<times> string \<Rightarrow> string" where
  "turn_line t = (case t of (role, msg) \<Rightarrow>
     (if role = ''user'' then ''User'' else ''AI'') @ '': '' @ msg)"

definition conversation_context :: "conversation \<Rightarrow> string" where
  "conversation_context conv = join ''\<newline>'' (map turn_line (butlast conv))"

text \<open>The debug section of the sidebar (lines 106 to 112).\<close>

definition sidebar_debug :: "'f world \<Rightarrow> 'f widgets \<Rightarrow> 'f event list \<times> string option" where
  "sidebar_debug w ui =
     (let api_key = api_key_field ui in
      if api_key \<noteq> [] \<and> list_models_button ui then
        (case configure_genai w api_key of
           (Inl m, ev) \<Rightarrow> (ev, Some m)
         | (Inr u, ev) \<Rightarrow>
             (case list_available_models w of
                (available_models, ev') \<Rightarrow>
                  (ev @ ev' @ StWrite ''Available models:'' #
                     map (\<lambda>m. StWrite (''- '' @ m)) available_models, None)))
      else ([], None))"

text \<open>The \<^verbatim>\<open>except Exception as e\<close> of the Send handler (lines 157 to 160).\<close>

definition send_failed ::
  "conversation \<Rightarrow> 'f event list \<Rightarrow> string \<Rightarrow> conversation \<times> 'f event list \<times> outcome" where
  "send_failed conv ev m =
     (let error_message = ''Error: '' @ m in
      (conv @ [(''ai'', error_message)], ev @ [StError error_message], Finished))"

text \<open>The Send handler (lines 129 to 160).\<close>

definition send_section ::
  "'f world \<Rightarrow> 'f widgets \<Rightarrow> conversation \<Rightarrow> conversation \<times> 'f event list \<times> outcome" where
  "send_section w ui conv =
     (let api_key = api_key_field ui; model_name = model_select ui;
          user_input = symptoms_area ui in
      if send_button ui then
        if api_key = [] then
          (conv, [StError ''Please enter your Gemini API Key in the sidebar.''], Returned)
        else if user_input \<noteq> [] then
          (let conv1 = conv @ [(''user'', user_input)] in
           case configure_genai w api_key of
             (Inl m, ev1) \<Rightarrow> send_failed conv1 ev1 m
           | (Inr u, ev1) \<Rightarrow>
               (case GenerativeModel w model_name of
                  Inl m \<Rightarrow> send_failed conv1 (ev1 @ [NewGenerativeModel model_name]) m
                | Inr model \<Rightarrow>
                    (case get_ai_response user_input (conversation_context conv1) model of
                       (response, ev2) \<Rightarrow>
                         (conv1 @ [(''ai'', response)],
                          ev1 @ [NewGenerativeModel model_name] @ ev2, Rerun))))
        else (conv, [], Finished)
      else (conv, [], Finished))"

text \<open>
  The hospital finder section (lines 166 to 205). An exception raised while the map is
  drawn leaves \<^verbatim>\<open>main\<close>, and nothing of the map or the list is shown.
\<close>

definition hospital_section :: "'f world \<Rightarrow> 'f widgets \<Rightarrow> 'f event list \<times> outcome" where
  "hospital_section w ui =
     (let latitude = latitude_input ui; longitude = longitude_input ui;
          radius = Rep_search_radius (radius_slider ui) in
      if find_button ui then
        if float_bool w latitude \<and> float_bool w longitude then
          (case get_nearby_hospitals w latitude longitude radius of
             (hospitals, ev) \<Rightarrow>
               if hospitals \<noteq> [] then
                 (case draw_map w latitude longitude hospitals of
                    Some m \<Rightarrow> (ev, Uncaught m)
                  | None \<Rightarrow> (ev @ [ShowHospitals hospitals], Finished))
               else (ev @ [StInfo
                 ''No hospitals found in the selected area. Try increasing the radius.''],
                 Finished))
        else ([StError ''Please enter valid latitude and longitude.''], Finished)
      else ([], Finished))"

definition main :: "'f world \<Rightarrow> 'f widgets \<Rightarrow> session \<Rightarrow> session \<times> 'f event list \<times> outcome" where
  "main w ui s =
     (case sidebar_debug w ui of
        (ev0, Some m) \<Rightarrow> (s, ev0, Uncaught m)
      | (ev0, None) \<Rightarrow>
          (case send_section w ui (store s) of
             (conv, ev1, Finished) \<Rightarrow>
               (case hospital_section w ui of
                  (ev2, out) \<Rightarrow> (Some conv, ev0 @ ev1 @ ev2, out))
           | (conv, ev1, out) \<Rightarrow> (Some conv, ev0 @ ev1, out)))"

text \<open>
  One action of the user: the run its click starts and, when that run ends in
  \<^verbatim>\<open>st.rerun()\<close>, the run Streamlit starts next, with the same widget values and no
  button pressed.
\<close>

definition released :: "'f widgets \<Rightarrow> 'f widgets" where
  "released ui = ui\<lparr>list_models_button := False, send_button := False, find_button := False\<rparr>"

definition interaction ::
  "'f world \<Rightarrow> 'f widgets \<Rightarrow> session \<Rightarrow> session \<times> 'f event list \<times> outcome" where
  "interaction w ui s =
     (case main w ui s of
        (s1, ev1, Rerun) \<Rightarrow>
          (case main w (released ui) s1 of (s2, ev2, out) \<Rightarrow> (s2, ev1 @ ev2, out))
      | (s1, ev1, out) \<Rightarrow> (s1, ev1, out))"

fun run_session :: "('f world \<times> 'f widgets) list \<Rightarrow> session \<Rightarrow> session" where
  "run_session [] s = s"
| "run_session (a # rest) s = run_session rest (fst (interaction (fst a) (snd a) s))"

section \<open>The specification's vocabulary\<close>

text \<open>
  The definitions of this section are not translated from the source. They say, in the
  words of the specification, what the claims below are about.
\<close>

text \<open>
  A Send click, a Find click: the run that the click of that one button starts.
\<close>

definition send_click :: "'f widgets \<Rightarrow> bool" where
  "send_click ui = (send_button ui \<and> \<not> list_models_button ui \<and> \<not> find_button ui)"


text \<open>The number of turns of a role in a conversation.\<close>

definition turns_of :: "string \<Rightarrow> conversation \<Rightarrow> nat" where
  "turns_of role conv = length (filter (\<lambda>t. fst t = role) conv)"

text \<open>
  The specification's Conversation Store: a turn has a speaker, user or assistant, and
  \<open>serializeForContext(excludingLast)\<close> joins the turns as \<open><Speaker>: <text>\<close>
  lines, newline-separated, optionally without the most recent turn. The script tags
  the user's turns \<open>user\<close>; every other tag is the assistant's.
\<close>

datatype speaker = User | Assistant

fun speaker_label :: "speaker \<Rightarrow> string" where
  "speaker_label User = ''User''"
| "speaker_label Assistant = ''AI''"

definition speaker_of :: "string \<Rightarrow> speaker" where
  "speaker_of role = (if role = ''user'' then User else Assistant)"

definition spec_turns :: "conversation \<Rightarrow> (speaker \<times> string) list" where
  "spec_turns conv = map (\<lambda>t. (speaker_of (fst t), snd t)) conv"

fun spec_lines :: "(speaker \<times> string) list \<Rightarrow> string" where
  "spec_lines [] = []"
| "spec_lines [(sp, txt)] = speaker_label sp @ '': '' @ txt"
| "spec_lines ((sp, txt) # t # ts) =
     speaker_label sp @ '': '' @ txt @ ''\<newline>'' @ spec_lines (t # ts)"

definition spec_serializeForContext :: "bool \<Rightarrow> (speaker \<times> string) list \<Rightarrow> string" where
  "spec_serializeForContext excludingLast turns =
     spec_lines (if excludingLast then take (length turns - 1) turns else turns)"

text \<open>
  An element has a name tag when it is an object whose \<open>tags\<close> member is an object
  with a \<open>name\<close> key; it has coordinates when it has the keys \<open>lat\<close> and \<open>lon\<close>.
  A node element is an element as the geodata API documents it: an object; its tags,
  when it has any, an object; and its coordinates present when it is named.
\<close>

definition has_name_tag :: "'f json \<Rightarrow> bool" where
  "has_name_tag element =
     (case element of
        JDict items \<Rightarrow>
          (case map_of items ''tags'' of
             Some (JDict tags) \<Rightarrow> map_of tags ''name'' \<noteq> None
           | _ \<Rightarrow> False)
      | _ \<Rightarrow> False)"

definition has_coordinates :: "'f json \<Rightarrow> bool" where
  "has_coordinates element =
     (case element of
        JDict items \<Rightarrow> map_of items ''lat'' \<noteq> None \<and> map_of items ''lon'' \<noteq> None
      | _ \<Rightarrow> False)"

definition node_element :: "'f json \<Rightarrow> bool" where
  "node_element element =
     (case element of
        JDict items \<Rightarrow>
          (case map_of items ''tags'' of
             None \<Rightarrow> True
           | Some (JDict tags) \<Rightarrow> map_of tags ''name'' = None \<or> has_coordinates element
           | Some _ \<Rightarrow> False)
      | _ \<Rightarrow> False)"





section \<open>Sample runs\<close>

text \<open>
  Concrete worlds and widget values, with a float written as its decimal text: the
  world is given by what \<^verbatim>\<open>genai.configure\<close>, \<^verbatim>\<open>genai.GenerativeModel\<close> and
  \<^verbatim>\<open>requests.post\<close> do in it.
\<close>

definition sample_world ::
  "string option \<Rightarrow> string + generative_model \<Rightarrow> py_exception + (py_exception + string json)
     \<Rightarrow> string world" where
  "sample_world configured created response =
     \<lparr>float_str = (\<lambda>x. x), float_bool = (\<lambda>x. x \<noteq> ''0.0'' \<and> x \<noteq> ''-0.0''),
      configure = (\<lambda>key. configured), list_models = Inr [],
      GenerativeModel = (\<lambda>n. created), post = (\<lambda>url data. response),
      draw_map = (\<lambda>latitude longitude hospitals. None)\<rparr>"

definition chat_world :: "string option \<Rightarrow> string + generative_model \<Rightarrow> string world" where
  "chat_world configured created = sample_world configured created (Inl (Raised ''unused''))"

definition geodata_world :: "py_exception + (py_exception + string json) \<Rightarrow> string world" where
  "geodata_world response = sample_world None (Inl ''unused'') response"

lift_definition initial_radius :: search_radius is 5000
  by simp


definition send_widgets :: "string \<Rightarrow> string \<Rightarrow> string widgets" where
  "send_widgets key text =
     \<lparr>api_key_field = key, model_select = ''gemini-1.5-flash'',
      latitude_input = ''37.7749'', longitude_input = ''-122.4194'',
      radius_slider = initial_radius,
      list_models_button = False, symptoms_area = text, send_button = True,
      find_button = False\<rparr>"


definition general_hospital :: "string json" where
  "general_hospital =
     JDict [(''type'', JStr ''node''), (''lat'', JFloat ''37.78''), (''lon'', JFloat ''-122.41''),
            (''tags'', JDict [(''amenity'', JStr ''hospital''), (''name'', JStr ''General Hospital'')])]"

definition general_hospital_record :: "string hospital" where
  "general_hospital_record =
     \<lparr>name = JStr ''General Hospital'', phone = JStr ''N/A'', lat = JFloat ''37.78'',
      lon = JFloat ''-122.41'', address = JStr ''Address not available''\<rparr>"

definition unnamed_node :: "string json" where
  "unnamed_node =
     JDict [(''type'', JStr ''node''), (''lat'', JFloat ''37.79''), (''lon'', JFloat ''-122.42''),
            (''tags'', JDict [(''amenity'', JStr ''hospital'')])]"

definition named_without_lat :: "string json" where
  "named_without_lat =
     JDict [(''type'', JStr ''node''), (''lon'', JFloat ''-122.43''),
            (''tags'', JDict [(''name'', JStr ''Bay Clinic'')])]"

section \<open>The conversation\<close>

lemma join_turn_lines:
  "join ''\<newline>'' (map turn_line conv) = spec_lines (spec_turns conv)"
proof (induction conv rule: induct_list012)
  case 1
  show ?case by (simp add: spec_turns_def)
next
  case (2 t)
  show ?case by (cases t) (simp add: spec_turns_def turn_line_def speaker_of_def)
next
  case (3 t u rest)
  then show ?case
    by (cases t) (simp add: spec_turns_def turn_line_def speaker_of_def)
qed

text \<open>
  C2. The context built at line 146 is the specification's serialization without the
  most recent turn: every earlier turn as a line \<open><Speaker>: <text>\<close>, the lines joined
  by newlines, with \<open>User\<close> for the user's turns and \<open>AI\<close> for the assistant's. For
  the store of a user turn \<open>a\<close>, an assistant turn \<open>b\<close> and a user turn \<open>c\<close> it is
  exactly \<open>User: a\<close>, newline, \<open>AI: b\<close>, and \<open>c\<close> does not occur in it.
\<close>

theorem conversation_context_serializes_earlier_turns:
  "conversation_context conv = spec_serializeForContext True (spec_turns conv)
   \<and> conversation_context (earlier @ [latest]) = join ''\<newline>'' (map turn_line earlier)
   \<and> conversation_context [(''user'', ''a''), (''ai'', ''b''), (''user'', ''c'')]
       = ''User: a\<newline>AI: b''
   \<and> \<not> str_in ''c'' (conversation_context [(''user'', ''a''), (''ai'', ''b''), (''user'', ''c'')])"
proof -
  have "take (length conv - 1) (spec_turns conv) = spec_turns (butlast conv)"
    by (simp add: spec_turns_def butlast_conv_take take_map)
  then have "conversation_context conv = spec_serializeForContext True (spec_turns conv)"
    by (simp add: conversation_context_def spec_serializeForContext_def join_turn_lines
        spec_turns_def)
  moreover have "conversation_context (earlier @ [latest]) = join ''\<newline>'' (map turn_line earlier)"
    by (simp add: conversation_context_def)
  moreover have "conversation_context [(''user'', ''a''), (''ai'', ''b''), (''user'', ''c'')]
       = ''User: a\<newline>AI: b''"
    by (simp add: conversation_context_def turn_line_def)
  ultimately show ?thesis by simp
qed

section \<open>The generation call\<close>

text \<open>
  C8. When the generation call raises an exception with message \<open>m\<close> on the prompt
  built from the input, \<^verbatim>\<open>get_ai_response\<close> returns the string
  \<open>Error generating response: \<close> followed by \<open>m\<close>: the exception does not leave the
  function, and what comes back is a plain string, the same type as a reply.
\<close>

theorem get_ai_response_error_string:
  assumes "model (prompt_text user_input conversation_history) = Inl m"
  shows "get_ai_response user_input conversation_history model =
           (''Error generating response: '' @ m,
            [GenerateContent (prompt_text user_input conversation_history)])"
  using assms by (simp add: get_ai_response_def)

theorem get_ai_response_error_string_witness:
  "get_ai_response ''headache'' [] (\<lambda>p. Inl ''429 quota exceeded'')
     = (''Error generating response: 429 quota exceeded'',
        [GenerateContent (prompt_text ''headache'' []) :: string event])"
  using get_ai_response_error_string
    [of "\<lambda>p. Inl ''429 quota exceeded''" "''headache''" "[]" "''429 quota exceeded''"]
  by simp

section \<open>The Send button\<close>

text \<open>
  C5. A run in which Send is pressed while the API key is empty shows the validation
  error and returns at once: that error is the only event of the run, so no call to the
  generation API (or to anything else) is made, and the conversation is what it was,
  whatever the text area holds.
\<close>

theorem send_without_api_key:
  assumes "send_button ui" and "api_key_field ui = []"
  shows "main w ui s =
           (Some (store s), [StError ''Please enter your Gemini API Key in the sidebar.''],
            Returned)
         \<and> interaction w ui s = main w ui s
         \<and> store (fst (interaction w ui s)) = store s"
  using assms
  by (simp add: main_def interaction_def sidebar_debug_def send_section_def store_def)

theorem send_without_api_key_witness:
  "main (chat_world None (Inr (\<lambda>p. Inr ''Rest.''))) (send_widgets [] ''headache'')
        (Some [(''user'', ''fever''), (''ai'', ''Rest.'')])
     = (Some [(''user'', ''fever''), (''ai'', ''Rest.'')],
        [StError ''Please enter your Gemini API Key in the sidebar.''], Returned)"
  using send_without_api_key
    [of "send_widgets [] ''headache''" "chat_world None (Inr (\<lambda>p. Inr ''Rest.''))"
        "Some [(''user'', ''fever''), (''ai'', ''Rest.'')]"]
  by (simp add: send_widgets_def store_def)

text \<open>
  C9. A Send click with an API key and an empty text area does nothing: the run has
  no event at all (no call, no error shown) and the conversation is what it was.
\<close>

theorem send_with_empty_text_is_noop:
  assumes "send_click ui" and "api_key_field ui \<noteq> []" and "symptoms_area ui = []"
  shows "main w ui s = (Some (store s), [], Finished)
         \<and> interaction w ui s = main w ui s
         \<and> store (fst (interaction w ui s)) = store s"
  using assms
  by (simp add: send_click_def main_def interaction_def sidebar_debug_def send_section_def
      hospital_section_def store_def)

theorem send_with_empty_text_is_noop_witness:
  "send_click (send_widgets ''key'' [])
   \<and> main (chat_world None (Inr (\<lambda>p. Inr ''Rest.''))) (send_widgets ''key'' [])
        (Some [(''user'', ''fever''), (''ai'', ''Rest.'')])
     = (Some [(''user'', ''fever''), (''ai'', ''Rest.'')], [], Finished)"
  using send_with_empty_text_is_noop
    [of "send_widgets ''key'' []" "chat_world None (Inr (\<lambda>p. Inr ''Rest.''))"
        "Some [(''user'', ''fever''), (''ai'', ''Rest.'')]"]
  by (simp add: send_click_def send_widgets_def store_def)

lemma main_released: "main w (released ui) s = (Some (store s), [], Finished)"
  by (simp add: main_def released_def sidebar_debug_def send_section_def hospital_section_def)

lemma send_section_appends:
  assumes "send_button ui" and "api_key_field ui \<noteq> []" and "symptoms_area ui \<noteq> []"
  shows "\<exists>reply ev out. send_section w ui conv
            = (conv @ [(''user'', symptoms_area ui), (''ai'', reply)], ev, out)
          \<and> (out = Finished \<or> out = Rerun)"
  using assms
  by (auto simp add: send_section_def configure_genai_def send_failed_def get_ai_response_def
      Let_def split: option.splits sum.splits)

lemma send_interaction:
  assumes "send_click ui" and "api_key_field ui \<noteq> []" and "symptoms_area ui \<noteq> []"
  shows "\<exists>reply. store (fst (interaction w ui s))
            = store s @ [(''user'', symptoms_area ui), (''ai'', reply)]"
proof -
  from assms(1) have send: "send_button ui" and quiet: "\<not> list_models_button ui"
    and idle: "\<not> find_button ui"
    by (simp_all add: send_click_def)
  from send_section_appends [OF send assms(2,3), of w "store s"]
  obtain reply ev out where sect: "send_section w ui (store s)
      = (store s @ [(''user'', symptoms_area ui), (''ai'', reply)], ev, out)"
    and out: "out = Finished \<or> out = Rerun"
    by blast
  from quiet have side: "sidebar_debug w ui = ([], None)"
    by (simp add: sidebar_debug_def)
  have stored: "store (Some conv) = conv" for conv :: conversation
    by (simp add: store_def)
  from idle have finder: "hospital_section w ui = ([], Finished)"
    by (simp add: hospital_section_def)
  from out have "main w ui s
        = (Some (store s @ [(''user'', symptoms_area ui), (''ai'', reply)]), ev, Finished)
      \<or> main w ui s
        = (Some (store s @ [(''user'', symptoms_area ui), (''ai'', reply)]), ev, Rerun)"
    by (auto simp add: main_def side sect finder)
  then have "store (fst (interaction w ui s))
      = store s @ [(''user'', symptoms_area ui), (''ai'', reply)]"
    by (auto simp add: interaction_def main_released stored)
  then show ?thesis ..
qed

lemma run_session_roles:
  assumes "\<forall>a \<in> set acts. send_click (snd a) \<and> api_key_field (snd a) \<noteq> []
             \<and> symptoms_area (snd a) \<noteq> []"
  shows "map fst (store (run_session acts s))
           = map fst (store s) @ concat (replicate (length acts) [''user'', ''ai''])"
  using assms
proof (induction acts arbitrary: s)
  case Nil
  show ?case by simp
next
  case (Cons a acts)
  then have a: "send_click (snd a)" "api_key_field (snd a) \<noteq> []" "symptoms_area (snd a) \<noteq> []"
    and rest: "\<forall>a \<in> set acts. send_click (snd a) \<and> api_key_field (snd a) \<noteq> []
             \<and> symptoms_area (snd a) \<noteq> []"
    by simp_all
  from send_interaction [OF a, of "fst a" s]
  obtain reply where step: "store (fst (interaction (fst a) (snd a) s))
      = store s @ [(''user'', symptoms_area (snd a)), (''ai'', reply)]" ..
  from Cons.IH [OF rest, of "fst (interaction (fst a) (snd a) s)"] step
  show ?case by simp
qed

lemma turns_of_roles: "turns_of role conv = length (filter (\<lambda>r. r = role) (map fst conv))"
  by (simp add: turns_of_def filter_map comp_def)

lemma count_user_ai:
  "length (filter (\<lambda>r. r = ''user'') (concat (replicate n [''user'', ''ai'']))) = n"
  "length (filter (\<lambda>r. r = ''ai'') (concat (replicate n [''user'', ''ai'']))) = n"
  by (induction n) simp_all

text \<open>
  C1. After any sequence of \<open>N\<close> Send clicks, each with a non-empty text and a
  non-empty API key and each in a world of its own, the roles of the conversation are
  those it had before followed by \<open>N\<close> times a user turn and then an assistant turn. So
  it has \<open>N\<close> more user turns and \<open>N\<close> more assistant turns, and exactly \<open>N\<close> of each
  when the session was fresh, whether the generation call of a click succeeded or
  raised.
\<close>

theorem send_sequence_turn_counts:
  assumes "\<forall>a \<in> set acts. send_click (snd a) \<and> api_key_field (snd a) \<noteq> []
             \<and> symptoms_area (snd a) \<noteq> []"
  shows "map fst (store (run_session acts s))
           = map fst (store s) @ concat (replicate (length acts) [''user'', ''ai''])
         \<and> turns_of ''user'' (store (run_session acts s)) = turns_of ''user'' (store s) + length acts
         \<and> turns_of ''ai'' (store (run_session acts s)) = turns_of ''ai'' (store s) + length acts
         \<and> turns_of ''user'' (store (run_session acts None)) = length acts
         \<and> turns_of ''ai'' (store (run_session acts None)) = length acts"
proof -
  have roles: "map fst (store (run_session acts s'))
      = map fst (store s') @ concat (replicate (length acts) [''user'', ''ai''])" for s'
    by (rule run_session_roles [OF assms])
  have counts: "turns_of ''user'' (store (run_session acts s'))
        = turns_of ''user'' (store s') + length acts
      \<and> turns_of ''ai'' (store (run_session acts s')) = turns_of ''ai'' (store s') + length acts"
    for s'
    by (simp add: turns_of_roles roles count_user_ai)
  have fresh: "turns_of role (store None) = 0" for role
    by (simp add: turns_of_def store_def)
  from roles [of s] counts [of s] counts [of None] fresh show ?thesis by simp
qed

theorem send_sequence_turn_counts_witness:
  "store (run_session
      [(chat_world None (Inr (\<lambda>p. Inr ''Rest and drink water.'')), send_widgets ''key'' ''headache''),
       (chat_world None (Inr (\<lambda>p. Inl ''429 quota exceeded'')), send_widgets ''key'' ''fever''),
       (chat_world None (Inl ''unknown model''), send_widgets ''key'' ''cough'')] None)
     = [(''user'', ''headache''), (''ai'', ''Rest and drink water.''),
        (''user'', ''fever''), (''ai'', ''Error generating response: 429 quota exceeded''),
        (''user'', ''cough''), (''ai'', ''Error: unknown model'')]
   \<and> turns_of ''user'' (store (run_session
      [(chat_world None (Inr (\<lambda>p. Inr ''Rest and drink water.'')), send_widgets ''key'' ''headache''),
       (chat_world None (Inr (\<lambda>p. Inl ''429 quota exceeded'')), send_widgets ''key'' ''fever''),
       (chat_world None (Inl ''unknown model''), send_widgets ''key'' ''cough'')] None)) = 3
   \<and> turns_of ''ai'' (store (run_session
      [(chat_world None (Inr (\<lambda>p. Inr ''Rest and drink water.'')), send_widgets ''key'' ''headache''),
       (chat_world None (Inr (\<lambda>p. Inl ''429 quota exceeded'')), send_widgets ''key'' ''fever''),
       (chat_world None (Inl ''unknown model''), send_widgets ''key'' ''cough'')] None)) = 3"
proof -
  have run: "store (run_session
      [(chat_world None (Inr (\<lambda>p. Inr ''Rest and drink water.'')), send_widgets ''key'' ''headache''),
       (chat_world None (Inr (\<lambda>p. Inl ''429 quota exceeded'')), send_widgets ''key'' ''fever''),
       (chat_world None (Inl ''unknown model''), send_widgets ''key'' ''cough'')] None)
     = [(''user'', ''headache''), (''ai'', ''Rest and drink water.''),
        (''user'', ''fever''), (''ai'', ''Error generating response: 429 quota exceeded''),
        (''user'', ''cough''), (''ai'', ''Error: unknown model'')]"
    by (simp add: interaction_def main_def sidebar_debug_def send_section_def
        hospital_section_def send_failed_def configure_genai_def get_ai_response_def
        chat_world_def sample_world_def send_widgets_def released_def store_def Let_def)
  have sends: "\<forall>a \<in> set
      [(chat_world None (Inr (\<lambda>p. Inr ''Rest and drink water.'')), send_widgets ''key'' ''headache''),
       (chat_world None (Inr (\<lambda>p. Inl ''429 quota exceeded'')), send_widgets ''key'' ''fever''),
       (chat_world None (Inl ''unknown model''), send_widgets ''key'' ''cough'')].
      send_click (snd a) \<and> api_key_field (snd a) \<noteq> [] \<and> symptoms_area (snd a) \<noteq> []"
    by (simp add: send_click_def send_widgets_def)
  from send_sequence_turn_counts [OF sends, of None] run show ?thesis
    by (simp add: turns_of_def store_def)
qed

section \<open>The hospital search\<close>

lemma and_then_Inl [simp]: "and_then (Inl e) f = Inl e"
  by (simp add: and_then_def)

lemma and_then_Inr [simp]: "and_then (Inr x) f = f x"
  by (simp add: and_then_def)

lemma element_record_named:
  assumes "map_of items ''tags'' = Some (JDict tags)" and "map_of tags ''name'' = Some n"
  shows "element_record (JDict items) =
    (case map_of items ''lat'' of
       None \<Rightarrow> Inl (KeyError ''lat'')
     | Some la \<Rightarrow>
        (case map_of items ''lon'' of
           None \<Rightarrow> Inl (KeyError ''lon'')
         | Some lo \<Rightarrow>
             Inr (Some \<lparr>name = n,
               phone = (case map_of tags ''phone'' of None \<Rightarrow> JStr ''N/A'' | Some v \<Rightarrow> v),
               lat = la, lon = lo,
               address = (case map_of tags ''addr:full'' of
                            None \<Rightarrow> JStr ''Address not available'' | Some v \<Rightarrow> v)\<rparr>)))"
  using assms by (simp add: element_record_def split: option.splits)

lemma element_record_unnamed:
  assumes "node_element element" and "\<not> has_name_tag element"
  shows "element_record element = Inr None"
  using assms
  by (auto simp add: element_record_def node_element_def has_name_tag_def
      split: json.splits option.splits)

lemma element_record_built:
  assumes "node_element element" and "has_name_tag element"
  shows "\<exists>h. element_record element = Inr (Some h)"
  using assms
  by (auto simp add: element_record_named node_element_def has_name_tag_def has_coordinates_def
      split: json.splits option.splits)

lemma collect_hospitals_raises:
  assumes "element \<in> set es" and "element_record element = Inl x"
  shows "\<exists>y. collect_hospitals es hs = Inl y"
  using assms
proof (induction es arbitrary: hs)
  case Nil
  then show ?case by simp
next
  case (Cons a es)
  then show ?case
    by (cases "element_record a") (auto split: option.splits)
qed

lemma collect_hospitals_nodes:
  assumes "\<forall>e \<in> set es. node_element e"
  shows "\<exists>hs'. collect_hospitals es hs = Inr (hs @ hs')
          \<and> map (\<lambda>h. Inr (Some h)) hs' = map element_record (filter has_name_tag es)"
  using assms
proof (induction es arbitrary: hs)
  case Nil
  then show ?case by simp
next
  case (Cons a es)
  then have node: "node_element a" and rest: "\<forall>e \<in> set es. node_element e"
    by simp_all
  show ?case
  proof (cases "has_name_tag a")
    case True
    from element_record_built [OF node True]
    obtain h where h: "element_record a = Inr (Some h)" ..
    from Cons.IH [OF rest, of "hs @ [h]"]
    obtain hs' where "collect_hospitals es (hs @ [h]) = Inr ((hs @ [h]) @ hs')"
      and "map (\<lambda>h. Inr (Some h)) hs' = map element_record (filter has_name_tag es)"
      by blast
    with True h show ?thesis by simp
  next
    case False
    from element_record_unnamed [OF node False]
    have skip: "element_record a = Inr None" .
    from Cons.IH [OF rest, of hs] False skip show ?thesis by simp
  qed
qed

lemma get_nearby_hospitals_parsed:
  assumes "post w overpass_url (overpass_query w la lo r) = Inr (Inr data)"
  shows "get_nearby_hospitals w la lo r =
     (case parse_hospitals data of
        Inr hospitals \<Rightarrow> (hospitals, [RequestsPost overpass_url (overpass_query w la lo r)])
      | Inl e \<Rightarrow> ([], [RequestsPost overpass_url (overpass_query w la lo r), StErrorFetch e]))"
  using assms by (simp add: get_nearby_hospitals_def Let_def split: sum.splits)

text \<open>
  C3, as amended. When the response is an object whose \<open>elements\<close> are node elements
  (objects, with an object for tags if any, and with \<open>lat\<close> and \<open>lon\<close> whenever they
  are named), the search returns, in order, exactly the records that the loop builds
  from the elements that have a name tag: one for each of them and none for any other
  element, with no error shown.
\<close>

theorem hospitals_are_the_named_elements:
  assumes "post w overpass_url (overpass_query w la lo r) = Inr (Inr data)"
    and "dict_get data ''elements'' (JList []) = Inr (JList es)"
    and "\<forall>e \<in> set es. node_element e"
  shows "map (\<lambda>h. Inr (Some h)) (fst (get_nearby_hospitals w la lo r))
           = map element_record (filter has_name_tag es)
         \<and> length (fst (get_nearby_hospitals w la lo r)) = length (filter has_name_tag es)
         \<and> snd (get_nearby_hospitals w la lo r)
           = [RequestsPost overpass_url (overpass_query w la lo r)]"
proof -
  from collect_hospitals_nodes [OF assms(3), of "[]"]
  obtain hs where hs: "collect_hospitals es [] = Inr hs"
    and built: "map (\<lambda>h. Inr (Some h)) hs = map element_record (filter has_name_tag es)"
    by auto
  from assms(2) hs have "parse_hospitals data = Inr hs"
    by (simp add: parse_hospitals_def)
  then have result: "get_nearby_hospitals w la lo r =
      (hs, [RequestsPost overpass_url (overpass_query w la lo r)])"
    by (simp add: get_nearby_hospitals_parsed [OF assms(1)])
  from built have "length hs = length (filter has_name_tag es)"
    by (metis length_map)
  with result built show ?thesis by simp
qed

theorem hospitals_are_the_named_elements_witness:
  "node_element general_hospital \<and> node_element unnamed_node
   \<and> has_name_tag general_hospital \<and> \<not> has_name_tag unnamed_node
   \<and> fst (get_nearby_hospitals
        (geodata_world (Inr (Inr (JDict [(''elements'', JList [general_hospital, unnamed_node])]))))
        ''37.7749'' ''-122.4194'' 5000)
      = [general_hospital_record]"
  using hospitals_are_the_named_elements
    [of "geodata_world (Inr (Inr (JDict [(''elements'', JList [general_hospital, unnamed_node])])))"
        "''37.7749''" "''-122.4194''" 5000
        "JDict [(''elements'', JList [general_hospital, unnamed_node])]"
        "[general_hospital, unnamed_node]"]
  by (simp add: geodata_world_def sample_world_def general_hospital_def unnamed_node_def
      general_hospital_record_def node_element_def has_name_tag_def has_coordinates_def
      element_record_def get_nearby_hospitals_def parse_hospitals_def)

text \<open>
  C3 as stated fails: for a response of two elements, the first with a name tag but
  no \<open>lat\<close> and the second without a name, the search returns no record at all, not
  one.
\<close>

theorem named_element_without_lat_counterexample:
  "has_name_tag named_without_lat \<and> \<not> has_name_tag unnamed_node
   \<and> get_nearby_hospitals
        (geodata_world (Inr (Inr (JDict [(''elements'', JList [named_without_lat, unnamed_node])]))))
        ''37.7749'' ''-122.4194'' 5000
      = ([], [RequestsPost overpass_url
               (overpass_query (geodata_world (Inl TypeError)) ''37.7749'' ''-122.4194'' 5000),
              StErrorFetch (KeyError ''lat'')])"
  by (simp add: geodata_world_def sample_world_def named_without_lat_def unnamed_node_def
      has_name_tag_def get_nearby_hospitals_def parse_hospitals_def element_record_def
      overpass_query_def)

text \<open>
  C4. When the loop builds a record from an element whose tags have no \<open>phone\<close> and
  no \<open>addr:full\<close>, the record's phone is \<open>N/A\<close> and its address is
  \<open>Address not available\<close>, and its name, latitude and longitude are the element's
  \<open>name\<close> tag, \<open>lat\<close> and \<open>lon\<close>, unchanged.
\<close>

theorem record_defaults:
  assumes "element_record element = Inr (Some h)"
    and "element = JDict items"
    and "map_of items ''tags'' = Some (JDict tags)"
    and "map_of tags ''phone'' = None"
    and "map_of tags ''addr:full'' = None"
  shows "phone h = JStr ''N/A'' \<and> address h = JStr ''Address not available''
         \<and> map_of tags ''name'' = Some (name h)
         \<and> map_of items ''lat'' = Some (lat h) \<and> map_of items ''lon'' = Some (lon h)"
proof -
  from assms(1,2,3) obtain n where n: "map_of tags ''name'' = Some n"
    by (cases "map_of tags ''name''") (simp_all add: element_record_def)
  from assms(1) show ?thesis
    unfolding assms(2) element_record_named [OF assms(3) n]
    using assms(4,5) n by (auto split: option.splits)
qed

theorem record_defaults_witness:
  "element_record general_hospital = Inr (Some general_hospital_record)
   \<and> phone general_hospital_record = JStr ''N/A''
   \<and> address general_hospital_record = JStr ''Address not available''
   \<and> name general_hospital_record = JStr ''General Hospital''
   \<and> lat general_hospital_record = JFloat ''37.78''
   \<and> lon general_hospital_record = JFloat ''-122.41''"
proof -
  have built: "element_record general_hospital = Inr (Some general_hospital_record)"
    by (simp add: general_hospital_def general_hospital_record_def element_record_def)
  have shape: "general_hospital =
      JDict [(''type'', JStr ''node''), (''lat'', JFloat ''37.78''), (''lon'', JFloat ''-122.41''),
             (''tags'', JDict [(''amenity'', JStr ''hospital''),
                               (''name'', JStr ''General Hospital'')])]"
    by (simp add: general_hospital_def)
  have tags: "map_of [(''type'', JStr ''node''), (''lat'', JFloat ''37.78''),
                      (''lon'', JFloat ''-122.41''),
                      (''tags'', JDict [(''amenity'', JStr ''hospital''),
                               (''name'', JStr ''General Hospital'')])] ''tags''
      = Some (JDict [(''amenity'', JStr ''hospital''), (''name'', JStr ''General Hospital'')])"
    by simp
  have no_phone: "map_of [(''amenity'', JStr ''hospital''),
      (''name'', JStr ''General Hospital'')] ''phone'' = None"
    by simp
  have no_address: "map_of [(''amenity'', JStr ''hospital''),
      (''name'', JStr ''General Hospital'')] ''addr:full'' = None"
    by simp
  from record_defaults [OF built shape tags no_phone no_address] built
  show ?thesis by simp
qed

text \<open>
  C6. When \<^verbatim>\<open>requests.post\<close> raises, or the response's \<^verbatim>\<open>.json()\<close> raises, the
  search shows the error and returns the empty list; a request that succeeds with an
  empty list of elements returns the empty list too, so the two return values are
  equal.
\<close>

theorem failed_request_returns_empty:
  assumes "post w overpass_url (overpass_query w la lo r) = Inl e
           \<or> post w overpass_url (overpass_query w la lo r) = Inr (Inl e)"
    and "post w' overpass_url (overpass_query w' la lo r)
           = Inr (Inr (JDict [(''elements'', JList [])]))"
  shows "get_nearby_hospitals w la lo r
           = ([], [RequestsPost overpass_url (overpass_query w la lo r), StErrorFetch e])
         \<and> get_nearby_hospitals w' la lo r
           = ([], [RequestsPost overpass_url (overpass_query w' la lo r)])
         \<and> fst (get_nearby_hospitals w la lo r) = fst (get_nearby_hospitals w' la lo r)"
proof -
  from assms(1) have failed: "get_nearby_hospitals w la lo r
      = ([], [RequestsPost overpass_url (overpass_query w la lo r), StErrorFetch e])"
    by (auto simp add: get_nearby_hospitals_def)
  from assms(2) have found_none: "get_nearby_hospitals w' la lo r
      = ([], [RequestsPost overpass_url (overpass_query w' la lo r)])"
    by (simp add: get_nearby_hospitals_def parse_hospitals_def)
  from failed found_none show ?thesis by simp
qed

theorem failed_request_returns_empty_witness:
  "fst (get_nearby_hospitals (geodata_world (Inl (Raised ''Connection refused'')))
          ''37.7749'' ''-122.4194'' 5000) = []
   \<and> fst (get_nearby_hospitals (geodata_world (Inr (Inl (Raised ''Expecting value''))))
          ''37.7749'' ''-122.4194'' 5000) = []
   \<and> fst (get_nearby_hospitals (geodata_world (Inr (Inr (JDict [(''elements'', JList [])]))))
          ''37.7749'' ''-122.4194'' 5000) = []"
  using failed_request_returns_empty
    [of "geodata_world (Inl (Raised ''Connection refused''))" "''37.7749''" "''-122.4194''" 5000
        "Raised ''Connection refused''"
        "geodata_world (Inr (Inr (JDict [(''elements'', JList [])])))"]
    failed_request_returns_empty
    [of "geodata_world (Inr (Inl (Raised ''Expecting value'')))" "''37.7749''" "''-122.4194''" 5000
        "Raised ''Expecting value''"
        "geodata_world (Inr (Inr (JDict [(''elements'', JList [])])))"]
  by (simp add: geodata_world_def sample_world_def)

text \<open>
  C10. When some element of the response has a name tag but no \<open>lat\<close> or no \<open>lon\<close>,
  indexing it raises \<^verbatim>\<open>KeyError\<close>, and the search shows an error and returns the empty
  list, whatever records the earlier elements gave.
\<close>

theorem missing_coordinate_discards_all:
  assumes "post w overpass_url (overpass_query w la lo r) = Inr (Inr data)"
    and "dict_get data ''elements'' (JList []) = Inr elements"
    and "py_iter elements = Inr es"
    and "JDict items \<in> set es"
    and "has_name_tag (JDict items)"
    and "map_of items ''lat'' = None \<or> map_of items ''lon'' = None"
  shows "fst (get_nearby_hospitals w la lo r) = []
         \<and> (\<exists>x. snd (get_nearby_hospitals w la lo r)
                  = [RequestsPost overpass_url (overpass_query w la lo r), StErrorFetch x])
         \<and> element_record (JDict items)
             = Inl (KeyError (if map_of items ''lat'' = None then ''lat'' else ''lon''))"
proof -
  from assms(5) obtain tags n where tags: "map_of items ''tags'' = Some (JDict tags)"
    and n: "map_of tags ''name'' = Some n"
    by (auto simp add: has_name_tag_def split: option.splits json.splits)
  from assms(6) have raised: "element_record (JDict items)
      = Inl (KeyError (if map_of items ''lat'' = None then ''lat'' else ''lon''))"
    by (auto simp add: element_record_named [OF tags n] split: option.splits)
  from collect_hospitals_raises [OF assms(4) raised, of "[]"]
  obtain x where "collect_hospitals es [] = Inl x" ..
  with assms(2,3) have "parse_hospitals data = Inl x"
    by (simp add: parse_hospitals_def)
  then have "get_nearby_hospitals w la lo r
      = ([], [RequestsPost overpass_url (overpass_query w la lo r), StErrorFetch x])"
    by (simp add: get_nearby_hospitals_parsed [OF assms(1)])
  with raised show ?thesis by simp
qed

theorem missing_coordinate_discards_all_witness:
  "collect_hospitals [general_hospital] [] = Inr [general_hospital_record]
   \<and> has_name_tag named_without_lat
   \<and> get_nearby_hospitals
        (geodata_world (Inr (Inr (JDict [(''elements'', JList [general_hospital, named_without_lat])]))))
        ''37.7749'' ''-122.4194'' 5000
      = ([], [RequestsPost overpass_url
               (overpass_query (geodata_world (Inl TypeError)) ''37.7749'' ''-122.4194'' 5000),
              StErrorFetch (KeyError ''lat'')])"
  using missing_coordinate_discards_all
    [of "geodata_world (Inr (Inr (JDict [(''elements'', JList [general_hospital, named_without_lat])])))"
        "''37.7749''" "''-122.4194''" 5000
        "JDict [(''elements'', JList [general_hospital, named_without_lat])]"
        "JList [general_hospital, named_without_lat]"
        "[general_hospital, named_without_lat]"
        "[(''type'', JStr ''node''), (''lon'', JFloat ''-122.43''),
            (''tags'', JDict [(''name'', JStr ''Bay Clinic'')])]"]
  by (simp add: geodata_world_def sample_world_def named_without_lat_def general_hospital_def
      general_hospital_record_def has_name_tag_def get_nearby_hospitals_def
      parse_hospitals_def element_record_def overpass_query_def)

section \<open>The search radius\<close>

















end
